theory Spec2Isabelle
  imports Main
begin

section \<open>Character storage, pointers and the output stream\<close>

text \<open>
  The program of \<^verbatim>\<open>string_view/string_view.cpp\<close> handles three kinds of
  character storage: string literals, the buffers of \<^verbatim>\<open>std::string\<close> objects and
  the buffer of the temporary \<^verbatim>\<open>cheat\<close>. Each is a block: a character array
  followed by one terminator cell. A block is named by a number; the store maps the live
  blocks to the characters they hold before the terminator. A \<^verbatim>\<open>const char *\<close> is
  a block together with an offset into it. Storage that has been released is absent from
  the store, so that every access through a dangling pointer is a failure of the model
  and never a value.
\<close>

type_synonym block = nat

type_synonym pointer = "block \<times> nat"

record state =
  heap :: "block \<rightharpoonup> string"
  next_block :: block
  cout :: string

datatype failure = Ill_Formed | Use_After_Free | Out_Of_Bounds

definition NUL :: char where
  "NUL = CHR 0x00"

definition endl :: string where
  "endl = [CHR 0x0A]"

definition print :: "string \<Rightarrow> state \<Rightarrow> state" where
  "print t st = st\<lparr>cout := cout st @ t\<rparr>"

text \<open>
  Construction and destruction of a \<^verbatim>\<open>std::string\<close> (and the placement of a string
  literal): a fresh block receives the characters; destruction releases the block.
\<close>

definition new_string :: "string \<Rightarrow> state \<Rightarrow> block \<times> state" where
  "new_string cs st =
     (next_block st,
      st\<lparr>heap := (heap st)(next_block st \<mapsto> cs), next_block := Suc (next_block st)\<rparr>)"

definition destroy_string :: "block \<Rightarrow> state \<Rightarrow> state" where
  "destroy_string b st = st\<lparr>heap := (heap st)(b := None)\<rparr>"

text \<open>
  Reading one character through a pointer. The cell after the last character of a live
  block is the terminator; anything further is outside the array.
\<close>

definition deref :: "state \<Rightarrow> pointer \<Rightarrow> failure + char" where
  "deref st p =
     (case heap st (fst p) of
        None \<Rightarrow> Inl Use_After_Free
      | Some cs \<Rightarrow>
          if snd p < length cs then Inr (cs ! snd p)
          else if snd p = length cs then Inr NUL
          else Inl Out_Of_Bounds)"

text \<open>
  \<^verbatim>\<open>strlen\<close> of the C library: the number of characters from the pointer up to the
  first terminator. The block's own terminator cell bounds the scan.
\<close>

definition strlen :: "state \<Rightarrow> pointer \<Rightarrow> failure + nat" where
  "strlen st p =
     (case heap st (fst p) of
        None \<Rightarrow> Inl Use_After_Free
      | Some cs \<Rightarrow>
          if snd p \<le> length cs
          then Inr (length (takeWhile (\<lambda>c. c \<noteq> NUL) (drop (snd p) cs)))
          else Inl Out_Of_Bounds)"

section \<open>The view: \<^verbatim>\<open>BasicStringView< char >\<close>\<close>

text \<open>
  The class has the two private members \<^verbatim>\<open>first\<close> and \<^verbatim>\<open>last\<close>, and the
  accessors \<^verbatim>\<open>begin()\<close> and \<^verbatim>\<open>end()\<close> return them.
\<close>

record string_view =
  first :: pointer
  last' :: pointer

definition view_begin :: "string_view \<Rightarrow> pointer" where
  "view_begin v = first v"

definition view_end :: "string_view \<Rightarrow> pointer" where
  "view_end v = last' v"

text \<open>The difference \<^verbatim>\<open>e - b\<close> of two pointers into one array.\<close>

definition ptr_diff :: "pointer \<Rightarrow> pointer \<Rightarrow> nat" where
  "ptr_diff e b = snd e - snd b"

text \<open>
  \<^verbatim>\<open>BasicStringView( const char *s ) : first( s ), last( s + strlen( s ) ) {}\<close>
\<close>

definition BasicStringView_cstr :: "state \<Rightarrow> pointer \<Rightarrow> failure + string_view" where
  "BasicStringView_cstr st p =
     (case strlen st p of
        Inl e \<Rightarrow> Inl e
      | Inr n \<Rightarrow> Inr \<lparr>first = p, last' = (fst p, snd p + n)\<rparr>)"

text \<open>
  \<^verbatim>\<open>BasicStringView( const std::string &s ) : first( &s[ 0 ] ), last( &s[ 0 ] + s.size() ) {}\<close>
\<close>

definition BasicStringView_string :: "state \<Rightarrow> block \<Rightarrow> failure + string_view" where
  "BasicStringView_string st b =
     (case heap st b of
        None \<Rightarrow> Inl Use_After_Free
      | Some cs \<Rightarrow> Inr \<lparr>first = (b, 0), last' = (b, 0 + length cs)\<rparr>)"

text \<open>
  \<^verbatim>\<open>std::copy( begin( v ), end( v ), std::ostream_iterator< CharT >( os ) )\<close>: the loop
  reads the character under the first pointer and advances it until it equals the second
  pointer. The characters read are returned in order.
\<close>

function copy_range :: "state \<Rightarrow> pointer \<Rightarrow> pointer \<Rightarrow> failure + string" where
  "copy_range st p e =
     (if p = e then Inr []
      else
        (case deref st p of
           Inl x \<Rightarrow> Inl x
         | Inr c \<Rightarrow>
             (case copy_range st (fst p, Suc (snd p)) e of
                Inl x \<Rightarrow> Inl x
              | Inr cs \<Rightarrow> Inr (c # cs))))"
  by pat_completeness auto
termination
proof (relation "measure (\<lambda>(st, p, e). case heap st (fst p) of
                                         None \<Rightarrow> 0
                                       | Some cs \<Rightarrow> Suc (length cs) - snd p)")
  show "wf (measure (\<lambda>(st, p, e). case heap st (fst p) of
                                    None \<Rightarrow> 0
                                  | Some cs \<Rightarrow> Suc (length cs) - snd p))"
    by simp
next
  fix st :: state and p e :: pointer and c :: char
  assume "p \<noteq> e" and "deref st p = Inr c"
  then show "((st, (fst p, Suc (snd p)), e), (st, p, e))
      \<in> measure (\<lambda>(st, p, e). case heap st (fst p) of
                                None \<Rightarrow> 0
                              | Some cs \<Rightarrow> Suc (length cs) - snd p)"
    by (auto simp: deref_def split: option.splits if_splits)
qed

text \<open>
  \<^verbatim>\<open>operator << ( std::ostream &os, const BasicStringView< CharT > &v )\<close> on
  \<^verbatim>\<open>std::cout\<close>.
\<close>

definition operator_out :: "state \<Rightarrow> string_view \<Rightarrow> failure + state" where
  "operator_out st v =
     (case copy_range st (view_begin v) (view_end v) of
        Inl e \<Rightarrow> Inl e
      | Inr cs \<Rightarrow> Inr (print cs st))"

section \<open>Source types and their conversion operators\<close>

text \<open>
  The constructor template of lines 74 to 103 accepts a value of any class,
  \<^verbatim>\<open>AlienType\<close>, and asks the compiler which conversions the class has. A class is
  described by the conversion operators it declares. As in every class of namespace
  \<^verbatim>\<open>MyLib\<close>, the operators are public, \<^verbatim>\<open>const\<close> and not
  \<^verbatim>\<open>explicit\<close>, and they read the member \<^verbatim>\<open>std::string s\<close>:
  \<^item> \<open>op_cstr\<close>: \<^verbatim>\<open>operator const char *() const { return s.c_str(); }\<close>
  \<^item> \<open>op_string\<close>: \<^verbatim>\<open>operator std::string () const { std::cout << ...; return s; }\<close>,
    with the text the body writes to \<^verbatim>\<open>std::cout\<close> before it returns
  \<^item> \<open>op_string_ref\<close>: \<^verbatim>\<open>operator const std::string &() const { return s; }\<close>
  \<^item> \<open>op_view\<close>: \<^verbatim>\<open>operator MyStd::StringView () const { std::cout << ...; return s; }\<close>,
    with the text the body writes
\<close>

record alien_type =
  op_cstr :: bool
  op_string :: "string option"
  op_string_ref :: bool
  op_view :: "string option"

text \<open>An object of such a class: its class and the block of its member \<^verbatim>\<open>s\<close>.\<close>

record alien =
  atype :: alien_type
  s :: block

definition MyObject0 :: alien_type where
  "MyObject0 = \<lparr>op_cstr = True, op_string = None, op_string_ref = True, op_view = None\<rparr>"

definition MyObject1 :: alien_type where
  "MyObject1 = \<lparr>op_cstr = False, op_string = Some (''Needs extension'' @ endl),
                 op_string_ref = False, op_view = None\<rparr>"

definition MyObject2 :: alien_type where
  "MyObject2 = \<lparr>op_cstr = True, op_string = None, op_string_ref = False, op_view = None\<rparr>"

definition MyObject3 :: alien_type where
  "MyObject3 = \<lparr>op_cstr = False, op_string = None, op_string_ref = True, op_view = None\<rparr>"

definition MyObject4 :: alien_type where
  "MyObject4 = \<lparr>op_cstr = False, op_string = None, op_string_ref = True,
                 op_view = Some (''Best choice!'' @ endl)\<rparr>"

text \<open>
  The declaration of a local object, \<^verbatim>\<open>MyLib::MyObject1 o1;\<close>: the default member
  initializer builds the member \<^verbatim>\<open>s\<close>.
\<close>

definition new_object :: "alien_type \<Rightarrow> string \<Rightarrow> state \<Rightarrow> alien \<times> state" where
  "new_object T cs st = (\<lparr>atype = T, s = fst (new_string cs st)\<rparr>, snd (new_string cs st))"

subsection \<open>The conversion operators\<close>

definition conv_cstr :: "alien \<Rightarrow> pointer" where
  "conv_cstr a = (s a, 0)"

definition conv_string_ref :: "alien \<Rightarrow> block" where
  "conv_string_ref a = s a"

text \<open>
  The value-producing operator writes its text and returns a copy of \<^verbatim>\<open>s\<close>: a new
  string object, a temporary of the caller. Without the operator the call does not
  compile.
\<close>

definition conv_string :: "alien \<Rightarrow> state \<Rightarrow> failure + (block \<times> state)" where
  "conv_string a st =
     (case op_string (atype a) of
        None \<Rightarrow> Inl Ill_Formed
      | Some t \<Rightarrow>
          (case heap st (s a) of
             None \<Rightarrow> Inl Use_After_Free
           | Some cs \<Rightarrow> Inr (new_string cs (print t st))))"

text \<open>
  The operator to the view type writes its text and returns \<^verbatim>\<open>s\<close> as a view, through
  the constructor from \<^verbatim>\<open>const std::string &\<close>.
\<close>

definition conv_view :: "alien \<Rightarrow> state \<Rightarrow> failure + (string_view \<times> state)" where
  "conv_view a st =
     (case op_view (atype a) of
        None \<Rightarrow> Inl Ill_Formed
      | Some t \<Rightarrow>
          (case BasicStringView_string (print t st) (s a) of
             Inl e \<Rightarrow> Inl e
           | Inr v \<Rightarrow> Inr (v, print t st)))"

section \<open>Capability probing\<close>

text \<open>
  The explicit member call \<^verbatim>\<open>e.operator std::string ()\<close> names the conversion
  function to \<^verbatim>\<open>std::string\<close> itself: an operator to \<^verbatim>\<open>const std::string &\<close>
  has another name and is not found. Whether the call has a type depends on the class and
  on whether the object expression \<^verbatim>\<open>e\<close> is \<^verbatim>\<open>const\<close>; this is all the trait
  below sees of a class.
\<close>

type_synonym member_call = "bool \<Rightarrow> bool"

text \<open>
  For a class of the description the operator \<open>op_string\<close> is a \<^verbatim>\<open>const\<close> member,
  which an object expression may call whether it is \<^verbatim>\<open>const\<close> or not.
\<close>

definition has_member_call :: "alien_type \<Rightarrow> member_call" where
  "has_member_call T is_const = (case op_string T of None \<Rightarrow> False | Some t \<Rightarrow> True)"

text \<open>
  The operands of the two probes. \<^verbatim>\<open>std::declval< T >()\<close> is an rvalue of the class,
  not \<^verbatim>\<open>const\<close>. \<^verbatim>\<open>std::as_const\<close> of the header \<^verbatim>\<open>utility\<close> has two
  overloads: \<^verbatim>\<open>as_const( T & )\<close> takes an lvalue and returns it as \<^verbatim>\<open>const\<close>;
  \<^verbatim>\<open>as_const( const T && )\<close>, the one an rvalue selects, is deleted, and the
  expression then has no type.
\<close>

datatype category = Lvalue | Rvalue

type_synonym object_expr = "category \<times> bool"

definition declval :: object_expr where
  "declval = (Rvalue, False)"

definition as_const :: "object_expr \<Rightarrow> object_expr option" where
  "as_const e = (case fst e of Lvalue \<Rightarrow> Some (Lvalue, True) | Rvalue \<Rightarrow> None)"

text \<open>
  \<^verbatim>\<open>is_temp_string_convertible< T >\<close> (lines 16 to 25) is \<^verbatim>\<open>std::false_type\<close> unless
  one of its two partial specializations applies. The first (line 20) applies when
  \<^verbatim>\<open>std::declval< T >().operator std::string ()\<close> has a type, the second (line 24)
  when \<^verbatim>\<open>std::as_const( std::declval< T >() ).operator std::string ()\<close> has one.
\<close>

definition probe_declval :: "member_call \<Rightarrow> bool" where
  "probe_declval call = call (snd declval)"

definition probe_as_const :: "member_call \<Rightarrow> bool" where
  "probe_as_const call = (case as_const declval of None \<Rightarrow> False | Some e \<Rightarrow> call (snd e))"

definition is_temp_string_convertible :: "member_call \<Rightarrow> bool" where
  "is_temp_string_convertible call = (probe_declval call \<or> probe_as_const call)"

text \<open>
  The classification in the words of the specification: the probe on the class as it is
  and the probe on the class taken as \<^verbatim>\<open>const\<close>, either of which suffices.
\<close>

definition either_form :: "member_call \<Rightarrow> bool" where
  "either_form call = (call False \<or> call True)"

text \<open>
  The three uses of \<^verbatim>\<open>std::is_convertible\<close> in the \<^verbatim>\<open>enable_if\<close> of lines 77 to
  82, for a class of the description, by the rules of implicit conversion:
  \<^item> to \<^verbatim>\<open>const char *\<close>: the class declares the operator to it;
  \<^item> to \<^verbatim>\<open>std::string\<close>: one conversion function yields a \<^verbatim>\<open>std::string\<close>,
    by value or as a reference to copy from (with both declared the copy-initialization
    is ambiguous);
  \<^item> to \<^verbatim>\<open>const std::string &\<close>: the reference binds to the string the reference
    operator returns, or else to the temporary the value operator returns.
\<close>

definition is_convertible_cstr :: "alien_type \<Rightarrow> bool" where
  "is_convertible_cstr T = op_cstr T"

definition is_convertible_string :: "alien_type \<Rightarrow> bool" where
  "is_convertible_string T = ((op_string T \<noteq> None) \<noteq> op_string_ref T)"

definition is_convertible_string_ref :: "alien_type \<Rightarrow> bool" where
  "is_convertible_string_ref T = (op_string_ref T \<or> op_string T \<noteq> None)"

text \<open>The \<^verbatim>\<open>enable_if\<close> condition: the constructor template takes part for the class.\<close>

definition enabled :: "alien_type \<Rightarrow> bool" where
  "enabled T =
     (is_convertible_cstr T \<or> is_convertible_string T \<or> is_convertible_string_ref T)"

section \<open>The capability-probing constructor\<close>

text \<open>
  The \<^verbatim>\<open>if constexpr\<close> chain of the lambda, lines 89 to 102: which branch is
  compiled for the class.
\<close>

datatype strategy = Owned_Value | Borrowed_Pointer | Borrowed_Reference

definition select :: "alien_type \<Rightarrow> strategy" where
  "select T =
     (if is_temp_string_convertible (has_member_call T) then Owned_Value
      else if is_convertible_cstr T then Borrowed_Pointer
      else Borrowed_Reference)"

text \<open>
  \<^verbatim>\<open>cheat= a.operator std::string();\<close> The temporary the operator returned is moved
  into \<^verbatim>\<open>cheat\<close> and destroyed at the end of this statement.
\<close>

definition assign_temporary :: "block \<Rightarrow> block \<Rightarrow> state \<Rightarrow> failure + state" where
  "assign_temporary dst tmp st =
     (case heap st tmp of
        None \<Rightarrow> Inl Use_After_Free
      | Some cs \<Rightarrow>
          (case heap st dst of
             None \<Rightarrow> Inl Use_After_Free
           | Some _ \<Rightarrow> Inr (destroy_string tmp (st\<lparr>heap := (heap st)(dst \<mapsto> cs)\<rparr>))))"

text \<open>
  The constructor \<^verbatim>\<open>BasicStringView( const AlienType &a, facepunch= {}, std::string &&cheat= {}, Verify = {} )\<close>
  delegates to the view the lambda returns. Each \<^verbatim>\<open>return\<close> of the lambda builds that
  view with one of the two plain constructors: from \<^verbatim>\<open>cheat\<close>, a
  \<^verbatim>\<open>std::string\<close>; from the \<^verbatim>\<open>const char *\<close> of the cast; from the
  \<^verbatim>\<open>const std::string &\<close> of the cast. The last cast needs the reference operator,
  the only conversion left in that branch.
\<close>

definition BasicStringView_alien ::
    "alien \<Rightarrow> block \<Rightarrow> state \<Rightarrow> failure + (string_view \<times> state)" where
  "BasicStringView_alien a cheat st =
     (case select (atype a) of
        Owned_Value \<Rightarrow>
          (case conv_string a (print (''Extending lifetime'' @ endl) st) of
             Inl e \<Rightarrow> Inl e
           | Inr (tmp, st1) \<Rightarrow>
               (case assign_temporary cheat tmp st1 of
                  Inl e \<Rightarrow> Inl e
                | Inr st2 \<Rightarrow>
                    (case BasicStringView_string st2 cheat of
                       Inl e \<Rightarrow> Inl e
                     | Inr v \<Rightarrow> Inr (v, st2))))
      | Borrowed_Pointer \<Rightarrow>
          (case BasicStringView_cstr st (conv_cstr a) of
             Inl e \<Rightarrow> Inl e
           | Inr v \<Rightarrow> Inr (v, st))
      | Borrowed_Reference \<Rightarrow>
          (if op_string_ref (atype a)
           then (case BasicStringView_string st (conv_string_ref a) of
                   Inl e \<Rightarrow> Inl e
                 | Inr v \<Rightarrow> Inr (v, st))
           else Inl Ill_Formed))"

section \<open>Initializing a view from an object\<close>

text \<open>
  Both \<^verbatim>\<open>f( o )\<close> and \<^verbatim>\<open>MyStd::StringView sanity= o;\<close> copy-initialize a view
  from an object of another class. The candidates are the constructors of the view that
  take the object without a user-defined conversion, which leaves the constructor
  template where it is enabled, and the conversion function of the class to the view
  type. Both take the object as it is; the conversion function is not a template and is
  preferred. With no candidate the program is ill-formed.
\<close>

datatype resolution = Conversion_Function | Constructor_Template

definition resolve :: "alien_type \<Rightarrow> failure + resolution" where
  "resolve T =
     (case op_view T of
        Some _ \<Rightarrow> Inr Conversion_Function
      | None \<Rightarrow> if enabled T then Inr Constructor_Template else Inl Ill_Formed)"

text \<open>
  The default arguments of the constructor template are evaluated where the call is made.
  The empty string bound to \<^verbatim>\<open>cheat\<close> is a temporary of the calling
  full-expression and is destroyed when that full-expression ends. The \<^verbatim>\<open>Verify\<close>
  parameter is destroyed with it, by the caller: the rule of implementations that end the
  lifetime of parameter objects with the full-expression of the call (one that ends it
  with the called function would run \<^verbatim>\<open>~Verify()\<close> when the constructor returns).
  \<^verbatim>\<open>facepunch\<close> is empty and has no destructor of its own. \<^verbatim>\<open>~Verify()\<close> writes a
  line; the string releases its buffer. The list is in the order of destruction.
\<close>

datatype temporary = Temp_Verify | Temp_string block

definition Verify_dtor :: "state \<Rightarrow> state" where
  "Verify_dtor st = print (''Killing lifetime extension'' @ endl) st"

fun destroy_temporary :: "temporary \<Rightarrow> state \<Rightarrow> state" where
  "destroy_temporary Temp_Verify st = Verify_dtor st"
| "destroy_temporary (Temp_string b) st = destroy_string b st"

definition end_full_expression :: "temporary list \<Rightarrow> state \<Rightarrow> state" where
  "end_full_expression ts st = fold destroy_temporary ts st"

definition copy_init ::
    "alien \<Rightarrow> state \<Rightarrow> failure + (string_view \<times> temporary list \<times> state)" where
  "copy_init a st =
     (case resolve (atype a) of
        Inl e \<Rightarrow> Inl e
      | Inr Conversion_Function \<Rightarrow>
          (case conv_view a st of
             Inl e \<Rightarrow> Inl e
           | Inr (v, st1) \<Rightarrow> Inr (v, [], st1))
      | Inr Constructor_Template \<Rightarrow>
          (case BasicStringView_alien a (fst (new_string [] st)) (snd (new_string [] st)) of
             Inl e \<Rightarrow> Inl e
           | Inr (v, st1) \<Rightarrow>
               Inr (v, [Temp_Verify, Temp_string (fst (new_string [] st))], st1)))"

text \<open>
  \<^verbatim>\<open>void f( MyStd::StringView v ) { std::cout << "F Called with: " << v << "..." << std::endl; }\<close>
\<close>

definition f :: "string_view \<Rightarrow> state \<Rightarrow> failure + state" where
  "f v st =
     (case operator_out (print ''F Called with: '' st) v of
        Inl e \<Rightarrow> Inl e
      | Inr st1 \<Rightarrow> Inr (print (''...'' @ endl) st1))"

text \<open>The expression statement \<^verbatim>\<open>f( o );\<close>\<close>

definition call_f :: "alien \<Rightarrow> state \<Rightarrow> failure + state" where
  "call_f a st =
     (case copy_init a st of
        Inl e \<Rightarrow> Inl e
      | Inr (v, ts, st1) \<Rightarrow>
          (case f v st1 of
             Inl e \<Rightarrow> Inl e
           | Inr st2 \<Rightarrow> Inr (end_full_expression ts st2)))"

text \<open>
  The declaration \<^verbatim>\<open>MyStd::StringView sanity= o;\<close> The initialization is a
  full-expression of its own: its temporaries are gone when the next statement starts.
\<close>

definition declare_view :: "alien \<Rightarrow> state \<Rightarrow> failure + (string_view \<times> state)" where
  "declare_view a st =
     (case copy_init a st of
        Inl e \<Rightarrow> Inl e
      | Inr (v, ts, st1) \<Rightarrow> Inr (v, end_full_expression ts st1))"

text \<open>The state in which \<^verbatim>\<open>main\<close> starts: nothing allocated, nothing written.\<close>

definition start :: state where
  "start = \<lparr>heap = Map.empty, next_block = 0, cout = []\<rparr>"

section \<open>Rankings and sample inputs\<close>

text \<open>
  The classifications that hold for a class, in the order of the chain: it is classified
  by \<^verbatim>\<open>is_temp_string_convertible\<close>, it converts to \<^verbatim>\<open>const char *\<close>, it converts
  to a reference to an existing string.
\<close>

definition applicable :: "alien_type \<Rightarrow> strategy list" where
  "applicable T =
     (if is_temp_string_convertible (has_member_call T) then [Owned_Value] else []) @
     (if is_convertible_cstr T then [Borrowed_Pointer] else []) @
     (if op_string_ref T then [Borrowed_Reference] else [])"

text \<open>The rank of a strategy by its place in the \<^verbatim>\<open>if constexpr\<close> chain.\<close>

fun chain_rank :: "strategy \<Rightarrow> nat" where
  "chain_rank Owned_Value = 3"
| "chain_rank Borrowed_Pointer = 2"
| "chain_rank Borrowed_Reference = 1"

text \<open>
  The rank of a strategy by the priority table of the specification's design notes:
  borrowed-reference above borrowed-pointer above owned-value.
\<close>

fun table_rank :: "strategy \<Rightarrow> nat" where
  "table_rank Borrowed_Reference = 3"
| "table_rank Borrowed_Pointer = 2"
| "table_rank Owned_Value = 1"

text \<open>Whether a diagnostic text occurs in what has been written.\<close>

fun occurs :: "string \<Rightarrow> string \<Rightarrow> bool" where
  "occurs t [] = (t = [])"
| "occurs t (c # cs) = (take (length t) (c # cs) = t \<or> occurs t cs)"

text \<open>
  Three further classes, to exercise the template beyond the five of \<^verbatim>\<open>MyLib\<close>:
  \<^verbatim>\<open>MyObject4\<close> without its reference operator, a class with no conversion operator at
  all, and a class with the value, the pointer and the reference operator together.
\<close>

definition View_only :: alien_type where
  "View_only = \<lparr>op_cstr = False, op_string = None, op_string_ref = False,
                 op_view = Some (''Best choice!'' @ endl)\<rparr>"

definition Opaque :: alien_type where
  "Opaque = \<lparr>op_cstr = False, op_string = None, op_string_ref = False, op_view = None\<rparr>"

definition Value_and_reference :: alien_type where
  "Value_and_reference =
     \<lparr>op_cstr = True, op_string = Some [], op_string_ref = True, op_view = None\<rparr>"

text \<open>
  A class outside the description, as the trait sees it:
  \<^verbatim>\<open>struct X { operator std::string () = delete; operator std::string () const; };\<close>
  On an object that is not \<^verbatim>\<open>const\<close> the call selects the deleted overload and has
  no type; on a \<^verbatim>\<open>const\<close> object it calls the second operator.
\<close>

definition Const_only :: member_call where
  "Const_only is_const = is_const"

section \<open>Ranges and streaming of the two plain constructors\<close>

lemma copy_range_block:
  "heap st b = Some cs \<Longrightarrow> off + n \<le> length cs \<Longrightarrow>
   copy_range st (b, off) (b, off + n) = Inr (take n (drop off cs))"
proof (induction n arbitrary: off)
  case 0
  then show ?case by simp
next
  case (Suc n)
  from Suc.prems have lt: "off < length cs" by simp
  from Suc.prems have "Suc off + n \<le> length cs" by simp
  with Suc.IH [of "Suc off"] Suc.prems(1)
  have rec: "copy_range st (b, Suc off) (b, Suc off + n) = Inr (take n (drop (Suc off) cs))"
    by simp
  have rd: "deref st (b, off) = Inr (cs ! off)"
    using Suc.prems(1) lt by (simp add: deref_def)
  have "take (Suc n) (drop off cs) = cs ! off # take n (drop (Suc off) cs)"
    using lt by (simp add: Cons_nth_drop_Suc [symmetric])
  with rec rd show ?case
    by (subst copy_range.simps) simp
qed

lemma operator_out_block:
  "heap st b = Some cs \<Longrightarrow> n \<le> length cs \<Longrightarrow>
   operator_out st \<lparr>first = (b, 0), last' = (b, n)\<rparr> = Inr (print (take n cs) st)"
  using copy_range_block [of st b cs 0 n]
  by (simp add: operator_out_def view_begin_def view_end_def)


section \<open>The paths of the constructor template\<close>

lemma probe_as_const_never: "\<not> probe_as_const call"
  by (simp add: probe_as_const_def as_const_def declval_def)

lemma is_temp_first_probe: "is_temp_string_convertible call = call False"
  by (simp add: is_temp_string_convertible_def probe_declval_def probe_as_const_never declval_def)

lemma is_temp_iff: "is_temp_string_convertible (has_member_call T) = (op_string T \<noteq> None)"
  by (simp add: is_temp_first_probe has_member_call_def split: option.splits)

lemma print_print: "print t (print u st) = print (u @ t) st"
  by (simp add: print_def)

lemma heap_print: "heap (print t st) = heap st"
  by (simp add: print_def)

lemma next_block_print: "next_block (print t st) = next_block st"
  by (simp add: print_def)

lemma cout_print: "cout (print t st) = cout st @ t"
  by (simp add: print_def)

lemma f_block:
  assumes "heap st b = Some cs" and "n \<le> length cs"
  shows "f \<lparr>first = (b, 0), last' = (b, n)\<rparr> st
           = Inr (print (''F Called with: '' @ take n cs @ ''...'' @ endl) st)"
proof -
  have "heap (print ''F Called with: '' st) b = Some cs"
    using assms(1) by (simp add: heap_print)
  then have "operator_out (print ''F Called with: '' st) \<lparr>first = (b, 0), last' = (b, n)\<rparr>
               = Inr (print (take n cs) (print ''F Called with: '' st))"
    using assms(2) by (rule operator_out_block)
  then show ?thesis
    by (simp add: f_def print_print)
qed

lemma ctor_owned:
  assumes t: "op_string (atype a) = Some t"
    and src: "heap st (s a) = Some cs"
    and hold: "heap st cheat = Some z"
    and lt: "s a < next_block st" "cheat < next_block st"
  shows "\<exists>st1. BasicStringView_alien a cheat st
                 = Inr (\<lparr>first = (cheat, 0), last' = (cheat, length cs)\<rparr>, st1)
             \<and> cout st1 = cout st @ ''Extending lifetime'' @ endl @ t
             \<and> heap st1 cheat = Some cs
             \<and> heap st1 (s a) = (if s a = cheat then Some cs else heap st (s a))"
proof -
  have sel: "select (atype a) = Owned_Value"
    using t by (simp add: select_def is_temp_iff)
  show ?thesis
    using t src hold lt
    by (simp add: sel BasicStringView_alien_def conv_string_def assign_temporary_def
        BasicStringView_string_def new_string_def destroy_string_def print_def)
qed

lemma ctor_pointer:
  assumes "select (atype a) = Borrowed_Pointer" and "heap st (s a) = Some cs"
  shows "BasicStringView_alien a cheat st
           = Inr (\<lparr>first = (s a, 0),
                   last' = (s a, length (takeWhile (\<lambda>c. c \<noteq> NUL) cs))\<rparr>, st)"
  using assms
  by (simp add: BasicStringView_alien_def BasicStringView_cstr_def strlen_def conv_cstr_def)

lemma ctor_reference:
  assumes "select (atype a) = Borrowed_Reference" and "op_string_ref (atype a)"
    and "heap st (s a) = Some cs"
  shows "BasicStringView_alien a cheat st
           = Inr (\<lparr>first = (s a, 0), last' = (s a, length cs)\<rparr>, st)"
  using assms
  by (simp add: BasicStringView_alien_def BasicStringView_string_def conv_string_ref_def)

lemma select_reference_enabled:
  "enabled T \<Longrightarrow> select T = Borrowed_Reference \<Longrightarrow> op_string_ref T"
  by (auto simp: enabled_def select_def is_convertible_cstr_def is_convertible_string_def
      is_convertible_string_ref_def is_temp_iff split: if_splits)

lemma enabled_iff: "enabled T = (op_cstr T \<or> op_string T \<noteq> None \<or> op_string_ref T)"
  by (auto simp: enabled_def is_convertible_cstr_def is_convertible_string_def
      is_convertible_string_ref_def)

lemma copy_init_template:
  assumes r: "resolve (atype a) = Inr Constructor_Template"
    and src: "heap st (s a) = Some cs"
    and lt: "s a < next_block st"
  shows "\<exists>st1. copy_init a st
            = Inr (\<lparr>first = (case select (atype a) of Owned_Value \<Rightarrow> next_block st | _ \<Rightarrow> s a, 0),
                     last' = (case select (atype a) of Owned_Value \<Rightarrow> next_block st | _ \<Rightarrow> s a,
                              case select (atype a) of
                                Borrowed_Pointer \<Rightarrow> length (takeWhile (\<lambda>c. c \<noteq> NUL) cs)
                              | _ \<Rightarrow> length cs)\<rparr>,
                   [Temp_Verify, Temp_string (next_block st)], st1)
          \<and> heap st1 (next_block st) = Some (case select (atype a) of Owned_Value \<Rightarrow> cs | _ \<Rightarrow> [])
          \<and> heap st1 (s a) = Some cs
          \<and> cout st1 = cout st @ (case select (atype a) of
                                      Owned_Value \<Rightarrow> ''Extending lifetime'' @ endl @ the (op_string (atype a))
                                    | _ \<Rightarrow> [])"
proof -
  let ?n = "next_block st"
  let ?st = "snd (new_string [] st)"
  have en: "enabled (atype a)"
    using r by (auto simp: resolve_def split: option.splits if_splits)
  have c: "fst (new_string [] st) = ?n" by (simp add: new_string_def)
  have h1: "heap ?st (s a) = Some cs" using src lt by (simp add: new_string_def)
  have h2: "heap ?st ?n = Some []" by (simp add: new_string_def)
  have l1: "s a < next_block ?st" using lt by (simp add: new_string_def)
  have l2: "?n < next_block ?st" by (simp add: new_string_def)
  have co: "cout ?st = cout st" by (simp add: new_string_def)
  have ne: "s a \<noteq> ?n" using lt by simp
  show ?thesis
  proof (cases "select (atype a)")
    case Owned_Value
    then obtain t where t: "op_string (atype a) = Some t"
      by (auto simp: select_def is_temp_iff split: if_splits)
    from ctor_owned [OF t h1 h2 l1 l2] obtain st1 where
      "BasicStringView_alien a ?n ?st = Inr (\<lparr>first = (?n, 0), last' = (?n, length cs)\<rparr>, st1)"
      "cout st1 = cout ?st @ ''Extending lifetime'' @ endl @ t"
      "heap st1 ?n = Some cs"
      "heap st1 (s a) = (if s a = ?n then Some cs else heap ?st (s a))"
      by blast
    then show ?thesis
      using r Owned_Value t h1 ne co by (simp add: copy_init_def c)
  next
    case Borrowed_Pointer
    from ctor_pointer [OF Borrowed_Pointer h1, of ?n]
    show ?thesis
      using r Borrowed_Pointer h1 h2 co by (simp add: copy_init_def c)
  next
    case Borrowed_Reference
    from select_reference_enabled [OF en Borrowed_Reference]
    have "op_string_ref (atype a)" .
    from ctor_reference [OF Borrowed_Reference this h1, of ?n]
    show ?thesis
      using r Borrowed_Reference h1 h2 co by (simp add: copy_init_def c)
  qed
qed

lemma end_full_expression_template:
  "end_full_expression [Temp_Verify, Temp_string b] st
     = destroy_string b (print (''Killing lifetime extension'' @ endl) st)"
  by (simp add: end_full_expression_def Verify_dtor_def)

lemma call_f_template:
  assumes r: "resolve (atype a) = Inr Constructor_Template"
    and src: "heap st (s a) = Some cs"
    and lt: "s a < next_block st"
  shows "\<exists>v st1. copy_init a st = Inr (v, [Temp_Verify, Temp_string (next_block st)], st1)
          \<and> call_f a st
              = Inr (destroy_string (next_block st)
                      (print (''F Called with: ''
                                @ (case select (atype a) of
                                     Borrowed_Pointer \<Rightarrow> takeWhile (\<lambda>c. c \<noteq> NUL) cs
                                   | _ \<Rightarrow> cs)
                                @ ''...'' @ endl @ ''Killing lifetime extension'' @ endl) st1))
          \<and> declare_view a st
              = Inr (v, destroy_string (next_block st)
                           (print (''Killing lifetime extension'' @ endl) st1))"
proof -
  from copy_init_template [OF r src lt] obtain st1 where
    ci: "copy_init a st
            = Inr (\<lparr>first = (case select (atype a) of Owned_Value \<Rightarrow> next_block st | _ \<Rightarrow> s a, 0),
                     last' = (case select (atype a) of Owned_Value \<Rightarrow> next_block st | _ \<Rightarrow> s a,
                              case select (atype a) of
                                Borrowed_Pointer \<Rightarrow> length (takeWhile (\<lambda>c. c \<noteq> NUL) cs)
                              | _ \<Rightarrow> length cs)\<rparr>,
                   [Temp_Verify, Temp_string (next_block st)], st1)"
    and hc: "heap st1 (next_block st) = Some (case select (atype a) of Owned_Value \<Rightarrow> cs | _ \<Rightarrow> [])"
    and hs: "heap st1 (s a) = Some cs"
    by blast
  have tk: "take (length (takeWhile (\<lambda>c. c \<noteq> NUL) cs)) cs = takeWhile (\<lambda>c. c \<noteq> NUL) cs"
    by (rule takeWhile_eq_take [symmetric])
  have le: "length (takeWhile (\<lambda>c. c \<noteq> NUL) cs) \<le> length cs"
    by (rule length_takeWhile_le)
  show ?thesis
  proof (cases "select (atype a)")
    case Owned_Value
    with hc have "heap st1 (next_block st) = Some cs" by simp
    from f_block [OF this, of "length cs"] ci Owned_Value show ?thesis
      by (simp add: call_f_def declare_view_def end_full_expression_template print_print)
  next
    case Borrowed_Pointer
    from f_block [OF hs le] ci Borrowed_Pointer tk show ?thesis
      by (simp add: call_f_def declare_view_def end_full_expression_template print_print)
  next
    case Borrowed_Reference
    from f_block [OF hs, of "length cs"] ci Borrowed_Reference show ?thesis
      by (simp add: call_f_def declare_view_def end_full_expression_template print_print)
  qed
qed

lemma conversion_function_call:
  assumes "op_view (atype a) = Some t" and "heap st (s a) = Some cs"
  shows "copy_init a st = Inr (\<lparr>first = (s a, 0), last' = (s a, length cs)\<rparr>, [], print t st)"
    and "call_f a st = Inr (print (t @ ''F Called with: '' @ cs @ ''...'' @ endl) st)"
proof -
  have h: "heap (print t st) (s a) = Some cs"
    using assms(2) by (simp add: heap_print)
  show ci: "copy_init a st = Inr (\<lparr>first = (s a, 0), last' = (s a, length cs)\<rparr>, [], print t st)"
    using assms(1) h
    by (simp add: copy_init_def resolve_def conv_view_def BasicStringView_string_def)
  show "call_f a st = Inr (print (t @ ''F Called with: '' @ cs @ ''...'' @ endl) st)"
    using f_block [OF h, of "length cs"]
    by (simp add: call_f_def ci end_full_expression_def print_print)
qed

section \<open>Check 3 of \<^verbatim>\<open>main\<close>\<close>

text \<open>
  A view whose block has been released cannot be streamed: unless it is empty, the first
  read of the copy loop is a read of released storage.
\<close>

lemma released_view_not_readable:
  assumes "heap st (fst (first v)) = None" and "first v \<noteq> last' v"
  shows "operator_out st v = Inl Use_After_Free"
  using assms
  by (subst operator_out_def, subst copy_range.simps)
     (simp add: view_begin_def view_end_def deref_def)

text \<open>
  \<^verbatim>\<open>MyStd::StringView sanity= o1;\<close> with \<^verbatim>\<open>o1\<close> the only object so far: the view
  spans block 1, the block of \<^verbatim>\<open>cheat\<close>, and after the declaration only the block of
  \<^verbatim>\<open>o1.s\<close> is live.
\<close>

lemma check3_declaration:
  "declare_view (fst (new_object MyObject1 ''Hello world'' start))
                (snd (new_object MyObject1 ''Hello world'' start))
     = Inr (\<lparr>first = (1, 0), last' = (1, 11)\<rparr>,
            \<lparr>heap = [0 \<mapsto> ''Hello world''], next_block = 3,
             cout = ''Extending lifetime'' @ endl @ ''Needs extension'' @ endl
                      @ ''Killing lifetime extension'' @ endl\<rparr>)"
  by (simp add: declare_view_def copy_init_def resolve_def enabled_iff MyObject1_def
      new_object_def new_string_def start_def BasicStringView_alien_def select_def is_temp_iff
      conv_string_def assign_temporary_def BasicStringView_string_def destroy_string_def
      print_def end_full_expression_def Verify_dtor_def fun_upd_twist eval_nat_numeral)

text \<open>
  The next two statements, \<^verbatim>\<open>std::string evil= "Corrupt!!!";\<close> and the output of
  \<^verbatim>\<open>sanity\<close>: the read is one of released storage. What a run of the compiled program
  shows there is not a value of this model.
\<close>

lemma check3_reads_released_storage:
  "\<exists>sanity st1.
      declare_view (fst (new_object MyObject1 ''Hello world'' start))
                   (snd (new_object MyObject1 ''Hello world'' start)) = Inr (sanity, st1)
    \<and> operator_out (print (CHR 0x1B # ''[31mExpect corruption: '')
                       (snd (new_string ''Corrupt!!!'' st1))) sanity
        = Inl Use_After_Free"
proof -
  have "operator_out
          (print (CHR 0x1B # ''[31mExpect corruption: '')
             (snd (new_string ''Corrupt!!!''
                \<lparr>heap = [0 \<mapsto> ''Hello world''], next_block = 3,
                 cout = ''Extending lifetime'' @ endl @ ''Needs extension'' @ endl
                          @ ''Killing lifetime extension'' @ endl\<rparr>)))
          \<lparr>first = (1, 0), last' = (1, 11)\<rparr> = Inl Use_After_Free"
    by (rule released_view_not_readable) (simp_all add: new_string_def print_def)
  with check3_declaration show ?thesis by blast
qed

section \<open>The claims\<close>

text \<open>
  Claim C1. A class that \<^verbatim>\<open>is_temp_string_convertible\<close> classifies is accepted by the
  constructor template, and the first branch of the chain is the one that runs for it,
  whether or not the class also has the pointer or the reference operator: the
  constructor writes \<^verbatim>\<open>Extending lifetime\<close>, calls \<^verbatim>\<open>operator std::string\<close>,
  which writes its own text, stores the characters it returned in \<^verbatim>\<open>cheat\<close>, and
  the view it builds spans the block of \<^verbatim>\<open>cheat\<close> and not the member \<^verbatim>\<open>s\<close> of
  the object. The branch depends on the class alone.
\<close>

theorem owned_conversion_first:
  assumes cl: "is_temp_string_convertible (has_member_call (atype a))"
    and src: "heap st (s a) = Some cs"
    and hold: "heap st cheat = Some z"
    and lt: "s a < next_block st" "cheat < next_block st"
  shows "enabled (atype a)
       \<and> select (atype a) = Owned_Value
       \<and> (\<exists>t st1. op_string (atype a) = Some t
               \<and> BasicStringView_alien a cheat st
                   = Inr (\<lparr>first = (cheat, 0), last' = (cheat, length cs)\<rparr>, st1)
               \<and> cout st1 = cout st @ ''Extending lifetime'' @ endl @ t
               \<and> heap st1 cheat = Some cs)"
proof -
  from cl obtain t where t: "op_string (atype a) = Some t"
    by (auto simp: is_temp_iff)
  have en: "enabled (atype a)"
    using t by (simp add: enabled_iff)
  have sel: "select (atype a) = Owned_Value"
    using t by (simp add: select_def is_temp_iff)
  from ctor_owned [OF t src hold lt] obtain st1 where
    "BasicStringView_alien a cheat st
       = Inr (\<lparr>first = (cheat, 0), last' = (cheat, length cs)\<rparr>, st1)"
    "cout st1 = cout st @ ''Extending lifetime'' @ endl @ t"
    "heap st1 cheat = Some cs"
    by blast
  with t en sel show ?thesis by blast
qed

theorem owned_conversion_first_witness:
  "enabled Value_and_reference
    \<and> select Value_and_reference = Owned_Value
    \<and> (\<exists>st1. BasicStringView_alien
                 (fst (new_object Value_and_reference ''Hello'' start)) 1
                 (snd (new_string [] (snd (new_object Value_and_reference ''Hello'' start))))
               = Inr (\<lparr>first = (1, 0), last' = (1, 5)\<rparr>, st1)
            \<and> cout st1 = ''Extending lifetime'' @ endl
            \<and> heap st1 1 = Some ''Hello'')"
proof -
  let ?a = "fst (new_object Value_and_reference ''Hello'' start)"
  let ?st = "snd (new_string [] (snd (new_object Value_and_reference ''Hello'' start)))"
  have ty: "atype ?a = Value_and_reference"
    by (simp add: new_object_def)
  have cl: "is_temp_string_convertible (has_member_call (atype ?a))"
    by (simp add: new_object_def is_temp_iff Value_and_reference_def)
  have src: "heap ?st (s ?a) = Some ''Hello''"
    by (simp add: new_object_def new_string_def start_def)
  have hold: "heap ?st 1 = Some []"
    by (simp add: new_object_def new_string_def start_def)
  have l1: "s ?a < next_block ?st"
    by (simp add: new_object_def new_string_def start_def)
  have l2: "1 < next_block ?st"
    by (simp add: new_object_def new_string_def start_def)
  have c: "cout ?st = []"
    by (simp add: new_object_def new_string_def start_def)
  have o: "op_string Value_and_reference = Some []"
    by (simp add: Value_and_reference_def)
  from owned_conversion_first [OF cl src hold l1 l2] show ?thesis
    by (simp add: ty c o eval_nat_numeral)
qed

text \<open>
  Claim C2, as the specification states it, ranks borrowed-reference above
  borrowed-pointer above owned-value. \<^verbatim>\<open>MyObject0\<close> has the pointer and the reference
  operator and is given the pointer branch, which the table ranks below the reference
  branch; a class with the value and the reference operator is given the owned-value
  branch.
\<close>

theorem table_priority_counterexample:
  "enabled MyObject0
    \<and> applicable MyObject0 = [Borrowed_Pointer, Borrowed_Reference]
    \<and> select MyObject0 = Borrowed_Pointer
    \<and> table_rank (select MyObject0) < table_rank Borrowed_Reference
    \<and> applicable Value_and_reference = [Owned_Value, Borrowed_Pointer, Borrowed_Reference]
    \<and> select Value_and_reference = Owned_Value"
  by (simp add: enabled_iff applicable_def select_def is_temp_iff is_convertible_cstr_def
      MyObject0_def Value_and_reference_def)

text \<open>
  Claim C2, amended. For every class the constructor template accepts, the branch taken
  is one that applies and is ranked highest by the order of the chain: owned-value above
  borrowed-pointer above borrowed-reference. A conversion function to the view type, the
  exact match, is preferred to the constructor template altogether; without one the
  template is used.
\<close>

theorem chain_priority:
  assumes "enabled T"
  shows "select T \<in> set (applicable T)
       \<and> (\<forall>x \<in> set (applicable T). chain_rank x \<le> chain_rank (select T))
       \<and> (op_view T \<noteq> None \<longrightarrow> resolve T = Inr Conversion_Function)
       \<and> (op_view T = None \<longrightarrow> resolve T = Inr Constructor_Template)"
  using assms
  by (auto simp: enabled_iff applicable_def select_def is_temp_iff is_convertible_cstr_def
      resolve_def split: option.splits)

theorem chain_priority_witness:
  "select MyObject0 \<in> set (applicable MyObject0)
    \<and> chain_rank Borrowed_Reference \<le> chain_rank (select MyObject0)
    \<and> select MyObject0 = Borrowed_Pointer
    \<and> resolve MyObject0 = Inr Constructor_Template
    \<and> resolve MyObject4 = Inr Conversion_Function"
proof -
  have e0: "enabled MyObject0" by (simp add: enabled_iff MyObject0_def)
  have e4: "enabled MyObject4" by (simp add: enabled_iff MyObject4_def)
  show ?thesis
    using chain_priority [OF e0] chain_priority [OF e4]
    by (simp add: applicable_def select_def is_temp_iff is_convertible_cstr_def
        MyObject0_def MyObject4_def)
qed

text \<open>
  Claim C3. \<^verbatim>\<open>MyObject4\<close> has the reference operator and the operator to the view
  type. Passing \<^verbatim>\<open>o4\<close> to \<^verbatim>\<open>f\<close> uses the operator to the view type: the output is
  the line \<^verbatim>\<open>Best choice!\<close> followed by the line of \<^verbatim>\<open>f\<close>, and neither
  \<^verbatim>\<open>Extending lifetime\<close> nor the line of \<^verbatim>\<open>~Verify()\<close> occurs in it.
\<close>

theorem MyObject4_best_choice:
  "resolve MyObject4 = Inr Conversion_Function
    \<and> (\<exists>st. call_f (fst (new_object MyObject4 ''Hello world'' start))
                   (snd (new_object MyObject4 ''Hello world'' start)) = Inr st
            \<and> cout st = ''Best choice!'' @ endl @ ''F Called with: Hello world...'' @ endl
            \<and> occurs ''Best choice!'' (cout st)
            \<and> \<not> occurs ''Extending lifetime'' (cout st)
            \<and> \<not> occurs ''Killing lifetime extension'' (cout st))"
proof -
  let ?a = "fst (new_object MyObject4 ''Hello world'' start)"
  let ?st = "snd (new_object MyObject4 ''Hello world'' start)"
  have v: "op_view (atype ?a) = Some (''Best choice!'' @ endl)"
    by (simp add: new_object_def MyObject4_def)
  have h: "heap ?st (s ?a) = Some ''Hello world''"
    by (simp add: new_object_def new_string_def)
  have c: "cout ?st = []"
    by (simp add: new_object_def new_string_def start_def)
  have r: "resolve MyObject4 = Inr Conversion_Function"
    by (simp add: resolve_def MyObject4_def)
  from conversion_function_call(2) [OF v h] r c show ?thesis
    by (simp add: print_def endl_def)
qed



text \<open>
  Claim C5, as stated, rejects every class with none of the three conversions. The class
  \<open>View_only\<close> has none of them, and an object of it is accepted by \<^verbatim>\<open>f\<close>
  through its conversion function to the view type.
\<close>

theorem view_only_accepted_counterexample:
  "\<not> is_convertible_cstr View_only \<and> \<not> is_convertible_string View_only
    \<and> \<not> is_convertible_string_ref View_only
    \<and> resolve View_only = Inr Conversion_Function
    \<and> call_f (fst (new_object View_only ''Hello world'' start))
             (snd (new_object View_only ''Hello world'' start))
        = Inr (print (''Best choice!'' @ endl @ ''F Called with: Hello world...'' @ endl)
                 (snd (new_object View_only ''Hello world'' start)))"
proof -
  let ?a = "fst (new_object View_only ''Hello world'' start)"
  let ?st = "snd (new_object View_only ''Hello world'' start)"
  have v: "op_view (atype ?a) = Some (''Best choice!'' @ endl)"
    by (simp add: new_object_def View_only_def)
  have h: "heap ?st (s ?a) = Some ''Hello world''"
    by (simp add: new_object_def new_string_def)
  from conversion_function_call(2) [OF v h] show ?thesis
    by (simp add: resolve_def View_only_def is_convertible_cstr_def is_convertible_string_def
        is_convertible_string_ref_def)
qed

text \<open>
  Claim C5, amended. For every class with none of the three conversions the constructor
  template is excluded; if the class has no conversion function to the view type either,
  passing an object to \<^verbatim>\<open>f\<close>, or initializing a view from it, is ill-formed: the
  failure comes from the resolution, which looks at the class only, and nothing is run.
\<close>

theorem no_conversion_rejected:
  assumes "\<not> is_convertible_cstr (atype a)" and "\<not> is_convertible_string (atype a)"
    and "\<not> is_convertible_string_ref (atype a)"
  shows "\<not> enabled (atype a)
       \<and> (op_view (atype a) = None \<longrightarrow>
            resolve (atype a) = Inl Ill_Formed
          \<and> copy_init a st = Inl Ill_Formed
          \<and> call_f a st = Inl Ill_Formed
          \<and> declare_view a st = Inl Ill_Formed)"
  using assms
  by (simp add: enabled_def resolve_def copy_init_def call_f_def declare_view_def)

theorem no_conversion_rejected_witness:
  "\<not> enabled Opaque \<and> resolve Opaque = Inl Ill_Formed
    \<and> call_f \<lparr>atype = Opaque, s = 0\<rparr> (snd (new_string ''Hello'' start)) = Inl Ill_Formed"
proof -
  have a: "\<not> is_convertible_cstr (atype \<lparr>atype = Opaque, s = 0\<rparr>)"
    by (simp add: is_convertible_cstr_def Opaque_def)
  have b: "\<not> is_convertible_string (atype \<lparr>atype = Opaque, s = 0\<rparr>)"
    by (simp add: is_convertible_string_def Opaque_def)
  have c: "\<not> is_convertible_string_ref (atype \<lparr>atype = Opaque, s = 0\<rparr>)"
    by (simp add: is_convertible_string_ref_def Opaque_def)
  show ?thesis
    using no_conversion_rejected [OF a b c, of "snd (new_string ''Hello'' start)"]
    by (simp add: Opaque_def)
qed

text \<open>
  Claim C7. Whenever the constructor template initializes the view, its default-argument
  temporaries, the string \<^verbatim>\<open>cheat\<close> and the \<^verbatim>\<open>Verify\<close> object, are those of
  the calling full-expression. In \<^verbatim>\<open>f( o )\<close> the block of \<^verbatim>\<open>cheat\<close> is live while
  \<^verbatim>\<open>f\<close> runs, the line \<^verbatim>\<open>Killing lifetime extension\<close> comes last, after the line
  of \<^verbatim>\<open>f\<close>, and the block is released then. In a declaration the temporaries end with
  the declaration: the view is still there, and on the owned-value branch it points into
  the released block of \<^verbatim>\<open>cheat\<close>.
\<close>

theorem default_argument_temporaries:
  assumes r: "resolve (atype a) = Inr Constructor_Template"
    and src: "heap st (s a) = Some cs"
    and lt: "s a < next_block st"
  shows "\<exists>v st1.
           copy_init a st = Inr (v, [Temp_Verify, Temp_string (next_block st)], st1)
         \<and> heap st1 (next_block st) \<noteq> None
         \<and> (\<exists>st2. call_f a st = Inr st2
                 \<and> cout st2 = cout st1 @ ''F Called with: ''
                                @ (case select (atype a) of
                                     Borrowed_Pointer \<Rightarrow> takeWhile (\<lambda>c. c \<noteq> NUL) cs
                                   | _ \<Rightarrow> cs)
                                @ ''...'' @ endl @ ''Killing lifetime extension'' @ endl
                 \<and> heap st2 (next_block st) = None)
         \<and> (\<exists>st3. declare_view a st = Inr (v, st3)
                 \<and> cout st3 = cout st1 @ ''Killing lifetime extension'' @ endl
                 \<and> heap st3 (next_block st) = None
                 \<and> (select (atype a) = Owned_Value \<longrightarrow>
                      fst (view_begin v) = next_block st
                    \<and> deref st3 (view_begin v) = Inl Use_After_Free))"
proof -
  from copy_init_template [OF r src lt] obtain v st1 where
    ci: "copy_init a st = Inr (v, [Temp_Verify, Temp_string (next_block st)], st1)"
    and v: "v = \<lparr>first = (case select (atype a) of Owned_Value \<Rightarrow> next_block st | _ \<Rightarrow> s a, 0),
                  last' = (case select (atype a) of Owned_Value \<Rightarrow> next_block st | _ \<Rightarrow> s a,
                           case select (atype a) of
                             Borrowed_Pointer \<Rightarrow> length (takeWhile (\<lambda>c. c \<noteq> NUL) cs)
                           | _ \<Rightarrow> length cs)\<rparr>"
    and hc: "heap st1 (next_block st) = Some (case select (atype a) of Owned_Value \<Rightarrow> cs | _ \<Rightarrow> [])"
    by blast
  from call_f_template [OF r src lt] ci
  have cf: "call_f a st
              = Inr (destroy_string (next_block st)
                      (print (''F Called with: ''
                                @ (case select (atype a) of
                                     Borrowed_Pointer \<Rightarrow> takeWhile (\<lambda>c. c \<noteq> NUL) cs
                                   | _ \<Rightarrow> cs)
                                @ ''...'' @ endl @ ''Killing lifetime extension'' @ endl) st1))"
    and dv: "declare_view a st
              = Inr (v, destroy_string (next_block st)
                           (print (''Killing lifetime extension'' @ endl) st1))"
    by auto
  have alive: "heap st1 (next_block st) \<noteq> None"
    using hc by simp
  have call: "\<exists>st2. call_f a st = Inr st2
                 \<and> cout st2 = cout st1 @ ''F Called with: ''
                                @ (case select (atype a) of
                                     Borrowed_Pointer \<Rightarrow> takeWhile (\<lambda>c. c \<noteq> NUL) cs
                                   | _ \<Rightarrow> cs)
                                @ ''...'' @ endl @ ''Killing lifetime extension'' @ endl
                 \<and> heap st2 (next_block st) = None"
    using cf by (simp add: destroy_string_def print_def)
  have decl: "\<exists>st3. declare_view a st = Inr (v, st3)
                 \<and> cout st3 = cout st1 @ ''Killing lifetime extension'' @ endl
                 \<and> heap st3 (next_block st) = None
                 \<and> (select (atype a) = Owned_Value \<longrightarrow>
                      fst (view_begin v) = next_block st
                    \<and> deref st3 (view_begin v) = Inl Use_After_Free)"
    using dv v by (simp add: destroy_string_def print_def view_begin_def deref_def)
  from ci alive call decl show ?thesis by blast
qed

theorem default_argument_temporaries_witness:
  "\<exists>v st1.
      copy_init (fst (new_object MyObject1 ''Hello world'' start))
                (snd (new_object MyObject1 ''Hello world'' start))
        = Inr (v, [Temp_Verify, Temp_string 1], st1)
    \<and> heap st1 1 \<noteq> None
    \<and> (\<exists>st2. call_f (fst (new_object MyObject1 ''Hello world'' start))
                    (snd (new_object MyObject1 ''Hello world'' start)) = Inr st2
            \<and> cout st2 = cout st1 @ ''F Called with: Hello world...'' @ endl
                           @ ''Killing lifetime extension'' @ endl
            \<and> heap st2 1 = None)
    \<and> (\<exists>st3. declare_view (fst (new_object MyObject1 ''Hello world'' start))
                          (snd (new_object MyObject1 ''Hello world'' start)) = Inr (v, st3)
            \<and> cout st3 = cout st1 @ ''Killing lifetime extension'' @ endl
            \<and> heap st3 1 = None
            \<and> fst (view_begin v) = 1
            \<and> deref st3 (view_begin v) = Inl Use_After_Free)"
proof -
  let ?a = "fst (new_object MyObject1 ''Hello world'' start)"
  let ?st = "snd (new_object MyObject1 ''Hello world'' start)"
  have r: "resolve (atype ?a) = Inr Constructor_Template"
    by (simp add: new_object_def MyObject1_def resolve_def enabled_iff)
  have h: "heap ?st (s ?a) = Some ''Hello world''"
    by (simp add: new_object_def new_string_def)
  have l: "s ?a < next_block ?st"
    by (simp add: new_object_def new_string_def)
  have n: "next_block ?st = 1"
    by (simp add: new_object_def new_string_def start_def)
  have sel: "select (atype ?a) = Owned_Value"
    by (simp add: new_object_def MyObject1_def select_def is_temp_iff)
  from default_argument_temporaries [OF r h l] show ?thesis
    by (simp add: n sel)
qed



text \<open>
  Claim C9 has the class probed as it is and taken as \<^verbatim>\<open>const\<close>, either form
  sufficing. The specialization of line 24, written for the \<^verbatim>\<open>const\<close> form, hands
  the rvalue \<^verbatim>\<open>std::declval< T >()\<close> to \<^verbatim>\<open>std::as_const\<close> and so applies to no
  class: not to \<^verbatim>\<open>MyObject1\<close>, whose operator a \<^verbatim>\<open>const\<close> object may call and
  which line 20 alone classifies, and not to a class whose operator only a
  \<^verbatim>\<open>const\<close> object may call, which the claim classifies and the trait does not.
\<close>

theorem const_probe_never_applies:
  "has_member_call MyObject1 True
    \<and> \<not> probe_as_const (has_member_call MyObject1)
    \<and> probe_declval (has_member_call MyObject1)
    \<and> is_temp_string_convertible (has_member_call MyObject1)
    \<and> Const_only True
    \<and> either_form Const_only
    \<and> \<not> probe_declval Const_only
    \<and> \<not> probe_as_const Const_only
    \<and> \<not> is_temp_string_convertible Const_only"
  by (simp add: is_temp_string_convertible_def probe_declval_def probe_as_const_def
      declval_def as_const_def has_member_call_def MyObject1_def Const_only_def
      either_form_def)

text \<open>
  Claim C10. A view built from a \<^verbatim>\<open>std::string\<close> takes its range from the string's size
  and not from a terminator: for every content, empty or with embedded null characters,
  \<^verbatim>\<open>end - begin == s.size()\<close>, \<^verbatim>\<open>begin == end\<close> when the string is empty, and
  streaming writes exactly the \<^verbatim>\<open>s.size()\<close> characters.
\<close>

theorem string_view_range:
  assumes "heap st b = Some cs"
  shows "\<exists>v. BasicStringView_string st b = Inr v
           \<and> ptr_diff (view_end v) (view_begin v) = length cs
           \<and> (view_begin v = view_end v) = (cs = [])
           \<and> operator_out st v = Inr (print cs st)
           \<and> cout (print cs st) = cout st @ cs"
proof -
  let ?v = "\<lparr>first = (b, 0), last' = (b, length cs)\<rparr>"
  have "BasicStringView_string st b = Inr ?v"
    using assms by (simp add: BasicStringView_string_def)
  moreover have "ptr_diff (view_end ?v) (view_begin ?v) = length cs"
    by (simp add: ptr_diff_def view_end_def view_begin_def)
  moreover have "(view_begin ?v = view_end ?v) = (cs = [])"
    by (auto simp: view_end_def view_begin_def)
  moreover have "operator_out st ?v = Inr (print cs st)"
    using operator_out_block [of st b cs "length cs"] assms by simp
  moreover have "cout (print cs st) = cout st @ cs"
    by (simp add: print_def)
  ultimately show ?thesis by blast
qed

theorem string_view_range_witness:
  "\<exists>v. BasicStringView_string (snd (new_string [CHR ''a'', NUL, CHR ''b''] start)) 0 = Inr v
      \<and> ptr_diff (view_end v) (view_begin v) = 3
      \<and> view_begin v \<noteq> view_end v
      \<and> operator_out (snd (new_string [CHR ''a'', NUL, CHR ''b''] start)) v
          = Inr (print [CHR ''a'', NUL, CHR ''b''] (snd (new_string [CHR ''a'', NUL, CHR ''b''] start)))
      \<and> cout (print [CHR ''a'', NUL, CHR ''b''] (snd (new_string [CHR ''a'', NUL, CHR ''b''] start)))
          = [CHR ''a'', NUL, CHR ''b'']"
proof -
  have h: "heap (snd (new_string [CHR ''a'', NUL, CHR ''b''] start)) 0
             = Some [CHR ''a'', NUL, CHR ''b'']"
    by (simp add: new_string_def start_def)
  show ?thesis
    using string_view_range [OF h] by (simp add: new_string_def start_def eval_nat_numeral)
qed

end
